theory Spec2Isabelle
  imports Main "HOL-Library.Word"
begin

section \<open>The gRPC server wrapper of transport/grpc/server.go\<close>

text \<open>
  The file wraps a gRPC server: options build a configuration, two unary interceptors
  decorate every inbound call, and \<open>Start\<close>, \<open>Stop\<close> and \<open>Endpoint\<close> drive the
  listener. The model below follows the file function by function. What the file calls
  but does not define (the clock, the listener, the transport's own dispatcher) is
  either passed in as a parameter or modelled in a subsection of its own, named after
  the package it stands for.
\<close>

subsection \<open>Values, contexts and the world\<close>

text \<open>
  Go's \<open>interface{}\<close> values (requests, replies, the serving object) are the type
  variable \<open>'a\<close>. A \<open>time.Duration\<close> is a signed 64-bit count of nanoseconds, read with
  \<open>sint\<close>; an instant of \<open>time.Time\<close> is an integer count of nanoseconds, whose range
  is far wider than a duration's. An \<open>error\<close> is its message; \<open>nil\<close> is \<open>None\<close>.
\<close>

type_synonym Duration = "64 word"
type_synonym instant = int
type_synonym error = string

definition Second :: Duration where
  "Second = 1000000000"

definition Millisecond :: Duration where
  "Millisecond = 1000000"

text \<open>\<open>transport.Transport\<close>, the value stored under the transport package's key.\<close>

record Transport =
  Kind :: string

text \<open>\<open>ServerInfo\<close> of package grpc, the value stored under the package's own key.\<close>

record 'a ServerInfo =
  Server :: 'a
  FullMethod :: string

text \<open>\<open>grpc.UnaryServerInfo\<close>, the call metadata the transport hands to an interceptor.\<close>

record 'a UnaryServerInfo =
  info_Server :: 'a
  info_FullMethod :: string

text \<open>
  A \<open>context.Context\<close>, as far as this file uses one: its deadline, and the values
  under the two private keys (each key is a private struct type of its package, so a
  slot of its own per key is exact).
\<close>

record 'a Context =
  deadline :: "instant option"
  transport_value :: "Transport option"
  serverInfo_value :: "'a ServerInfo option"

text \<open>
  The world that calls act on: the clock read by \<open>time.Now\<close>, the derived contexts
  whose \<open>cancel\<close> has not run yet (each holds a registration with its parent, and a
  timer when it has a deadline of its own), the next context identifier, and the lines
  written to the logger.
\<close>

record world =
  clock :: instant
  pending :: "nat list"
  next_ctx :: nat
  logged :: "string list"

text \<open>
  A Go call either returns its results or unwinds with a panic. A handler returns Go's
  pair (reply, error); handlers are state transformers on the world.
\<close>

datatype 'r exit = Returns 'r | Panics string

fun is_panic :: "'r exit \<Rightarrow> bool" where
  "is_panic (Panics p) = True"
| "is_panic (Returns r) = False"

type_synonym 'a outcome = "('a \<times> error option) exit"

type_synonym 'a Handler = "'a Context \<Rightarrow> 'a \<Rightarrow> world \<Rightarrow> 'a outcome \<times> world"

type_synonym 'a Middleware = "'a Handler \<Rightarrow> 'a Handler"

type_synonym 'a UnaryHandler = "'a Context \<Rightarrow> 'a \<Rightarrow> world \<Rightarrow> 'a outcome \<times> world"

type_synonym 'a UnaryServerInterceptor =
  "'a Context \<Rightarrow> 'a \<Rightarrow> 'a UnaryServerInfo \<Rightarrow> 'a UnaryHandler \<Rightarrow> world \<Rightarrow> 'a outcome \<times> world"

subsection \<open>Package context of the standard library\<close>

text \<open>
  \<open>context.WithDeadline(parent, d)\<close>: when the parent's deadline is before \<open>d\<close> the
  child is \<open>WithCancel(parent)\<close> and keeps the parent's deadline; otherwise the child
  carries \<open>d\<close>. In both cases the child is registered and a \<open>cancel\<close> function for it
  is returned; here the function is named by the child's identifier.
\<close>

definition context_WithDeadline ::
  "'a Context \<Rightarrow> instant \<Rightarrow> world \<Rightarrow> ('a Context \<times> nat) \<times> world" where
  "context_WithDeadline parent d w =
     (let c = next_ctx w;
          w' = w\<lparr>pending := c # pending w, next_ctx := Suc c\<rparr>
      in case deadline parent of
           Some cur \<Rightarrow>
             if cur < d then ((parent, c), w')
             else ((parent\<lparr>deadline := Some d\<rparr>, c), w')
         | None \<Rightarrow> ((parent\<lparr>deadline := Some d\<rparr>, c), w'))"

text \<open>\<open>context.WithTimeout(parent, t)\<close> is \<open>WithDeadline(parent, time.Now().Add(t))\<close>.\<close>

definition context_WithTimeout ::
  "'a Context \<Rightarrow> Duration \<Rightarrow> world \<Rightarrow> ('a Context \<times> nat) \<times> world" where
  "context_WithTimeout parent t w = context_WithDeadline parent (clock w + sint t) w"

text \<open>Calling the returned \<open>cancel\<close> releases the child; a second call is a no-op.\<close>

definition cancel :: "nat \<Rightarrow> world \<Rightarrow> world" where
  "cancel c w = w\<lparr>pending := removeAll c (pending w)\<rparr>"

subsection \<open>Packages of the repository that the file imports\<close>

text \<open>
  Modelled from the spec: \<open>transport.NewContext\<close> and \<open>transport.FromContext\<close>, which
  are not in the file. The spec asks for a context carrying the transport-kind tag and
  an accessor whose answer is "not present" when the tag was never attached.
\<close>

definition transport_NewContext :: "'a Context \<Rightarrow> Transport \<Rightarrow> 'a Context" where
  "transport_NewContext ctx tr = ctx\<lparr>transport_value := Some tr\<rparr>"

definition transport_FromContext :: "'a Context \<Rightarrow> Transport option" where
  "transport_FromContext ctx = transport_value ctx"

text \<open>
  Modelled from the spec: \<open>NewContext\<close> and \<open>FromContext\<close> of package grpc, which
  live in another file of the package. They attach and read the CallInfo.
\<close>

definition NewContext :: "'a Context \<Rightarrow> 'a ServerInfo \<Rightarrow> 'a Context" where
  "NewContext ctx si = ctx\<lparr>serverInfo_value := Some si\<rparr>"

definition FromContext :: "'a Context \<Rightarrow> 'a ServerInfo option" where
  "FromContext ctx = serverInfo_value ctx"

text \<open>
  Modelled from the spec: \<open>middleware.Chain\<close>, which is not in the file. The spec fixes
  the nesting: the first listed middleware is the outermost, so it observes the call
  first and the result last.
\<close>

definition Chain :: "'a Middleware list \<Rightarrow> 'a Middleware" where
  "Chain ms next = foldr (\<lambda>m h. m h) ms next"

text \<open>
  Modelled from the spec: the package logger, which accepts message strings. A logged
  line is appended to the world's log.
\<close>

definition logger_Info :: "string \<Rightarrow> world \<Rightarrow> world" where
  "logger_Info msg w = w\<lparr>logged := logged w @ [msg]\<rparr>"

subsection \<open>The transport library\<close>

text \<open>
  A \<open>grpc.ServerOption\<close> is modelled as one of three: \<open>grpc.UnaryInterceptor\<close>, which
  installs a single interceptor; \<open>grpc.ChainUnaryInterceptor\<close>, which adds a chain of
  them; or an option that installs none (the file never looks into its options, it
  only passes them on). \<open>grpc.NewServer\<close> applies its options in the order given and
  collects the chained interceptors in that order. When the server is built the
  library puts the single interceptor, if there is one, in front of all the chained
  ones. It documents \<open>ChainUnaryInterceptor\<close> so: the first interceptor is the
  outermost, the last one the innermost wrapper around the real call. Each interceptor
  thus receives as its \<open>handler\<close> argument the rest of the chain, ending in the method
  handler.

  The library lets the single interceptor be set once: a second
  \<open>grpc.UnaryInterceptor\<close> in the list makes \<open>grpc.NewServer\<close> panic. The record
  below keeps the first one; what is proved about dispatch is proved for option lists
  that hold at most one.
\<close>

datatype 'a grpc_ServerOption =
    UnaryInterceptor "'a UnaryServerInterceptor"
  | ChainUnaryInterceptor "'a UnaryServerInterceptor list"
  | OtherServerOption string

record 'a grpc_Server =
  unaryInt :: "'a UnaryServerInterceptor option"
  chainUnaryInts :: "'a UnaryServerInterceptor list"
  otherOpts :: "string list"

fun singleInt_of :: "'a grpc_ServerOption \<Rightarrow> 'a UnaryServerInterceptor list" where
  "singleInt_of (UnaryInterceptor i) = [i]"
| "singleInt_of (ChainUnaryInterceptor _) = []"
| "singleInt_of (OtherServerOption _) = []"

fun unaryInts_of :: "'a grpc_ServerOption \<Rightarrow> 'a UnaryServerInterceptor list" where
  "unaryInts_of (UnaryInterceptor _) = []"
| "unaryInts_of (ChainUnaryInterceptor ints) = ints"
| "unaryInts_of (OtherServerOption _) = []"

fun others_of :: "'a grpc_ServerOption \<Rightarrow> string list" where
  "others_of (UnaryInterceptor _) = []"
| "others_of (ChainUnaryInterceptor _) = []"
| "others_of (OtherServerOption s) = [s]"

definition grpc_NewServer :: "'a grpc_ServerOption list \<Rightarrow> 'a grpc_Server" where
  "grpc_NewServer opts =
     \<lparr>unaryInt = (case concat (map singleInt_of opts) of [] \<Rightarrow> None | u # _ \<Rightarrow> Some u),
      chainUnaryInts = concat (map unaryInts_of opts),
      otherOpts = concat (map others_of opts)\<rparr>"

fun chainUnaryInterceptors ::
  "'a UnaryServerInterceptor list \<Rightarrow> 'a UnaryServerInterceptor" where
  "chainUnaryInterceptors [] = (\<lambda>ctx req info handler. handler ctx req)"
| "chainUnaryInterceptors (i # rest) =
     (\<lambda>ctx req info handler.
        i ctx req info (\<lambda>c r. chainUnaryInterceptors rest c r info handler))"

text \<open>
  One inbound unary call, as the transport dispatches it: the single interceptor, when
  set, followed by the chained ones is invoked with the base context, the request, the
  call's metadata and the method handler.
\<close>

definition grpc_handleUnary ::
  "'a grpc_Server \<Rightarrow> 'a Context \<Rightarrow> 'a \<Rightarrow> 'a UnaryServerInfo \<Rightarrow> 'a UnaryHandler
     \<Rightarrow> world \<Rightarrow> 'a outcome \<times> world" where
  "grpc_handleUnary g ctx req info handler =
     chainUnaryInterceptors
       ((case unaryInt g of Some u \<Rightarrow> [u] | None \<Rightarrow> []) @ chainUnaryInts g)
       ctx req info handler"




subsection \<open>The server and its options\<close>

text \<open>A bound listener, known by the address it reports.\<close>

record Listener =
  Addr :: string

text \<open>
  The \<open>Server\<close> struct. The embedded \<open>*grpc.Server\<close> and the listener are pointers
  that start out \<open>nil\<close>; a \<open>middleware.Middleware\<close> is a function value and may be
  \<open>nil\<close> as well.
\<close>

record 'a Server =
  grpc_Server :: "'a grpc_Server option"
  lis :: "Listener option"
  network :: string
  address :: string
  timeout :: Duration
  middleware :: "'a Middleware option"
  grpcOpts :: "'a grpc_ServerOption list"

type_synonym 'a ServerOption = "'a Server \<Rightarrow> 'a Server"

definition Network :: "string \<Rightarrow> 'a ServerOption" where
  "Network n = (\<lambda>s. s\<lparr>network := n\<rparr>)"

definition Address :: "string \<Rightarrow> 'a ServerOption" where
  "Address addr = (\<lambda>s. s\<lparr>address := addr\<rparr>)"

definition Timeout :: "Duration \<Rightarrow> 'a ServerOption" where
  "Timeout t = (\<lambda>s. s\<lparr>timeout := t\<rparr>)"

definition Middleware :: "'a Middleware option \<Rightarrow> 'a ServerOption" where
  "Middleware m = (\<lambda>s. s\<lparr>middleware := m\<rparr>)"

definition Options :: "'a grpc_ServerOption list \<Rightarrow> 'a ServerOption" where
  "Options opts = (\<lambda>s. s\<lparr>grpcOpts := opts\<rparr>)"

subsection \<open>The two interceptors\<close>

text \<open>
  \<open>UnaryTimeoutInterceptor\<close>: derive the bounded context, defer \<open>cancel\<close>, call the
  handler. The deferred call runs when the handler returns and when it panics.
\<close>

definition UnaryTimeoutInterceptor :: "Duration \<Rightarrow> 'a UnaryServerInterceptor" where
  "UnaryTimeoutInterceptor t = (\<lambda>ctx req info handler w.
     case context_WithTimeout ctx t w of
       ((ctx', c), w1) \<Rightarrow>
         (case handler ctx' req w1 of
            (Returns (reply, err), w2) \<Rightarrow> (Returns (reply, err), cancel c w2)
          | (Panics p, w2) \<Rightarrow> (Panics p, cancel c w2)))"

text \<open>
  \<open>UnaryServerInterceptor\<close>: stamp the context with the transport kind and the call's
  \<open>ServerInfo\<close>, wrap the handler in the middleware unless that is \<open>nil\<close>, and call it.
\<close>

definition UnaryServerInterceptor :: "'a Middleware option \<Rightarrow> 'a UnaryServerInterceptor" where
  "UnaryServerInterceptor m = (\<lambda>ctx req info handler.
     let ctx1 = transport_NewContext ctx \<lparr>Kind = ''GRPC''\<rparr>;
         ctx2 = NewContext ctx1 \<lparr>Server = info_Server info, FullMethod = info_FullMethod info\<rparr>;
         h = (\<lambda>c r. handler c r);
         h' = (case m of Some mw \<Rightarrow> mw h | None \<Rightarrow> h)
     in h' ctx2 req)"

subsection \<open>Construction\<close>

text \<open>
  \<open>NewServer\<close>: the defaults, the options applied in order, then the transport server
  built from the two interceptors followed by the caller's own transport options. The
  two default middleware, \<open>status.Server()\<close> and \<open>recovery.Recovery()\<close>, come from
  packages outside the file and are parameters.
\<close>

definition default_Server :: "'a Middleware \<Rightarrow> 'a Middleware \<Rightarrow> 'a Server" where
  "default_Server status_Server recovery_Recovery =
     \<lparr>grpc_Server = None, lis = None,
      network = ''tcp'', address = '':0'', timeout = Second,
      middleware = Some (Chain [status_Server, recovery_Recovery]),
      grpcOpts = []\<rparr>"

definition NewServer ::
  "'a Middleware \<Rightarrow> 'a Middleware \<Rightarrow> 'a ServerOption list \<Rightarrow> 'a Server" where
  "NewServer status_Server recovery_Recovery opts =
     (let srv = fold (\<lambda>opt s. opt s) opts (default_Server status_Server recovery_Recovery);
          grpcOpts0 = [ChainUnaryInterceptor
                         [UnaryServerInterceptor (middleware srv),
                          UnaryTimeoutInterceptor (timeout srv)]];
          grpcOpts1 = (if length (grpcOpts srv) > 0 then grpcOpts0 @ grpcOpts srv
                       else grpcOpts0)
      in srv\<lparr>grpc_Server := Some (grpc_NewServer grpcOpts1)\<rparr>)"

subsection \<open>Endpoint, Start and Stop\<close>

text \<open>
  \<open>Endpoint\<close>: \<open>host.Extract\<close> is outside the file and is a parameter; it returns Go's
  pair of an address and an error.
\<close>

definition Endpoint ::
  "(string \<Rightarrow> Listener option \<Rightarrow> string \<times> error option) \<Rightarrow> 'a Server
     \<Rightarrow> string \<times> error option" where
  "Endpoint host_Extract s =
     (case host_Extract (address s) (lis s) of
        (addr, Some err) \<Rightarrow> ('''', Some err)
      | (addr, None) \<Rightarrow> (''grpc://'' @ addr, None))"

text \<open>
  \<open>Start\<close>: \<open>net.Listen\<close> and the transport's blocking \<open>Serve\<close> are parameters acting
  on the world. The result is the returned error and the server as the call leaves it.
  \<open>Serve\<close> is a method of the embedded pointer: on a server without one the call
  panics, after the listener was stored and the line logged.
\<close>

definition nil_dereference :: string where
  "nil_dereference = ''invalid memory address or nil pointer dereference''"

definition Start ::
  "(string \<Rightarrow> string \<Rightarrow> world \<Rightarrow> (error + Listener) \<times> world)
     \<Rightarrow> ('a grpc_Server \<Rightarrow> Listener \<Rightarrow> world \<Rightarrow> error option \<times> world)
     \<Rightarrow> 'a Server \<Rightarrow> world \<Rightarrow> (error option exit \<times> 'a Server) \<times> world" where
  "Start net_Listen Serve s w =
     (case net_Listen (network s) (address s) w of
        (Inl err, w1) \<Rightarrow> ((Returns (Some err), s), w1)
      | (Inr l, w1) \<Rightarrow>
          (let s' = s\<lparr>lis := Some l\<rparr>;
               w2 = logger_Info (''[gRPC] server listening on: '' @ Addr l) w1
           in case grpc_Server s' of
                None \<Rightarrow> ((Panics nil_dereference, s'), w2)
              | Some g \<Rightarrow>
                  (case Serve g l w2 of (r, w3) \<Rightarrow> ((Returns r, s'), w3))))"


text \<open>
  One inbound unary call on a server: the embedded transport dispatches it through its
  chained interceptors.
\<close>

definition handleCall ::
  "'a Server \<Rightarrow> 'a Context \<Rightarrow> 'a \<Rightarrow> 'a UnaryServerInfo \<Rightarrow> 'a UnaryHandler
     \<Rightarrow> world \<Rightarrow> 'a outcome \<times> world" where
  "handleCall s ctx req info handler w =
     (case grpc_Server s of
        None \<Rightarrow> (Panics nil_dereference, w)
      | Some g \<Rightarrow> grpc_handleUnary g ctx req info handler w)"

subsection \<open>The construction surface, as the specification words it\<close>

text \<open>
  The five named options. An option list built from them is a list of calls; the
  specification's rule is that each field ends up with the value of the last call that
  touches it, or with its default when none does.
\<close>

datatype 'a option_call =
    Network_call string
  | Address_call string
  | Timeout_call Duration
  | Middleware_call "'a Middleware option"
  | Options_call "'a grpc_ServerOption list"

fun option_of :: "'a option_call \<Rightarrow> 'a ServerOption" where
  "option_of (Network_call n) = Network n"
| "option_of (Address_call a) = Address a"
| "option_of (Timeout_call t) = Timeout t"
| "option_of (Middleware_call m) = Middleware m"
| "option_of (Options_call os) = Options os"

fun touches_network :: "'a option_call \<Rightarrow> string option" where
  "touches_network (Network_call n) = Some n"
| "touches_network _ = None"

fun touches_address :: "'a option_call \<Rightarrow> string option" where
  "touches_address (Address_call a) = Some a"
| "touches_address _ = None"

fun touches_timeout :: "'a option_call \<Rightarrow> Duration option" where
  "touches_timeout (Timeout_call t) = Some t"
| "touches_timeout _ = None"

fun touches_middleware :: "'a option_call \<Rightarrow> 'a Middleware option option" where
  "touches_middleware (Middleware_call m) = Some m"
| "touches_middleware _ = None"

fun touches_grpcOpts :: "'a option_call \<Rightarrow> 'a grpc_ServerOption list option" where
  "touches_grpcOpts (Options_call os) = Some os"
| "touches_grpcOpts _ = None"

definition last_wins :: "('c \<Rightarrow> 'v option) \<Rightarrow> 'v \<Rightarrow> 'c list \<Rightarrow> 'v" where
  "last_wins touches dflt cs =
     (case List.map_filter touches cs of [] \<Rightarrow> dflt | v # vs \<Rightarrow> last (v # vs))"

text \<open>The ServerConfig invariant of the specification.\<close>

definition ServerConfig_invariant :: "'a Server \<Rightarrow> bool" where
  "ServerConfig_invariant s =
     (0 < sint (timeout s) \<and> network s \<noteq> [] \<and> address s \<noteq> [])"

text \<open>An option call whose argument respects the invariant's bound on its field.\<close>

fun well_formed :: "'a option_call \<Rightarrow> bool" where
  "well_formed (Network_call n) = (n \<noteq> [])"
| "well_formed (Address_call a) = (a \<noteq> [])"
| "well_formed (Timeout_call t) = (0 < sint t)"
| "well_formed (Middleware_call m) = True"
| "well_formed (Options_call os) = True"

text \<open>
  The endpoint format of the specification, \<open>grpc://<host>:<port>\<close>: the scheme, then an
  address that splits at its last colon into a host and a port, neither empty.
\<close>

definition host_port_form :: "string \<Rightarrow> bool" where
  "host_port_form a =
     (let port = rev (takeWhile (\<lambda>c. c \<noteq> CHR '':'') (rev a));
          host = take (length a - length port - 1) a
      in CHR '':'' \<in> set a \<and> host \<noteq> [] \<and> port \<noteq> [])"

definition endpoint_form :: "string \<Rightarrow> bool" where
  "endpoint_form u = (take 7 u = ''grpc://'' \<and> host_port_form (drop 7 u))"

subsection \<open>Instrumented handlers and collaborators\<close>

text \<open>
  A middleware, a single transport interceptor and a terminal handler that log whether
  the context they receive carries a deadline; a listener that finds its address taken;
  a transport whose \<open>Serve\<close> leaves a line in the log; a call in flight that still
  holds the derived context \<open>0\<close> and releases it when it ends, and one that never
  ends; and two address
  resolvers: one that hands back an address with a port and rejects one without, and
  one that finds no host and reports the empty address without an error.
\<close>

definition deadline_note :: "string \<Rightarrow> 'a Context \<Rightarrow> string" where
  "deadline_note who ctx =
     (case deadline ctx of None \<Rightarrow> who @ '': no deadline''
      | Some d \<Rightarrow> who @ '': deadline'')"

definition probe_middleware :: "'a Middleware" where
  "probe_middleware next =
     (\<lambda>ctx req w. next ctx req (logger_Info (deadline_note ''middleware'' ctx) w))"

definition probe_interceptor :: "'a UnaryServerInterceptor" where
  "probe_interceptor =
     (\<lambda>ctx req info handler w.
        handler ctx req (logger_Info (deadline_note ''interceptor'' ctx) w))"

definition probe_handler :: "'a UnaryHandler" where
  "probe_handler =
     (\<lambda>ctx req w. (Returns (req, None), logger_Info (deadline_note ''handler'' ctx) w))"

definition background :: "'a Context" where
  "background = \<lparr>deadline = None, transport_value = None, serverInfo_value = None\<rparr>"

definition world0 :: world where
  "world0 = \<lparr>clock = 0, pending = [], next_ctx = 0, logged = []\<rparr>"

definition busy_Listen :: "string \<Rightarrow> string \<Rightarrow> world \<Rightarrow> (error + Listener) \<times> world" where
  "busy_Listen n a w = (Inl ''bind: address already in use'', w)"

definition noisy_Serve :: "'a grpc_Server \<Rightarrow> Listener \<Rightarrow> world \<Rightarrow> error option \<times> world" where
  "noisy_Serve g l w = (None, logger_Info ''serving'' w)"




definition Extract_port :: "string \<Rightarrow> Listener option \<Rightarrow> string \<times> error option" where
  "Extract_port a l =
     (if CHR '':'' \<in> set a then (a, None) else ('''', Some ''missing port in address''))"

definition Extract_unresolved :: "string \<Rightarrow> Listener option \<Rightarrow> string \<times> error option" where
  "Extract_unresolved a l = ('''', None)"

section \<open>Properties\<close>

subsection \<open>Configuration\<close>

lemma last_wins_Nil: "last_wins t d [] = d"
  by (simp add: last_wins_def)

lemma last_wins_Cons:
  "last_wins t d (c # cs) = last_wins t (case t c of None \<Rightarrow> d | Some v \<Rightarrow> v) cs"
  by (cases "t c"; cases "List.map_filter t cs")
     (simp_all add: last_wins_def)

lemma fold_network:
  "network (fold (\<lambda>opt s. opt s) (map option_of cs) s) = last_wins touches_network (network s) cs"
proof (induction cs arbitrary: s)
  case Nil
  show ?case by (simp add: last_wins_Nil)
next
  case (Cons c cs)
  show ?case
    by (cases c)
       (simp_all add: Cons.IH last_wins_Cons Network_def Address_def Timeout_def
          Middleware_def Options_def)
qed

lemma fold_address:
  "address (fold (\<lambda>opt s. opt s) (map option_of cs) s) = last_wins touches_address (address s) cs"
proof (induction cs arbitrary: s)
  case Nil
  show ?case by (simp add: last_wins_Nil)
next
  case (Cons c cs)
  show ?case
    by (cases c)
       (simp_all add: Cons.IH last_wins_Cons Network_def Address_def Timeout_def
          Middleware_def Options_def)
qed

lemma fold_timeout:
  "timeout (fold (\<lambda>opt s. opt s) (map option_of cs) s) = last_wins touches_timeout (timeout s) cs"
proof (induction cs arbitrary: s)
  case Nil
  show ?case by (simp add: last_wins_Nil)
next
  case (Cons c cs)
  show ?case
    by (cases c)
       (simp_all add: Cons.IH last_wins_Cons Network_def Address_def Timeout_def
          Middleware_def Options_def)
qed

lemma fold_middleware:
  "middleware (fold (\<lambda>opt s. opt s) (map option_of cs) s)
     = last_wins touches_middleware (middleware s) cs"
proof (induction cs arbitrary: s)
  case Nil
  show ?case by (simp add: last_wins_Nil)
next
  case (Cons c cs)
  show ?case
    by (cases c)
       (simp_all add: Cons.IH last_wins_Cons Network_def Address_def Timeout_def
          Middleware_def Options_def)
qed

lemma fold_grpcOpts:
  "grpcOpts (fold (\<lambda>opt s. opt s) (map option_of cs) s)
     = last_wins touches_grpcOpts (grpcOpts s) cs"
proof (induction cs arbitrary: s)
  case Nil
  show ?case by (simp add: last_wins_Nil)
next
  case (Cons c cs)
  show ?case
    by (cases c)
       (simp_all add: Cons.IH last_wins_Cons Network_def Address_def Timeout_def
          Middleware_def Options_def)
qed

lemma NewServer_fields:
  "network (NewServer st rc opts) = network (fold (\<lambda>opt s. opt s) opts (default_Server st rc))"
  "address (NewServer st rc opts) = address (fold (\<lambda>opt s. opt s) opts (default_Server st rc))"
  "timeout (NewServer st rc opts) = timeout (fold (\<lambda>opt s. opt s) opts (default_Server st rc))"
  "middleware (NewServer st rc opts)
     = middleware (fold (\<lambda>opt s. opt s) opts (default_Server st rc))"
  "grpcOpts (NewServer st rc opts) = grpcOpts (fold (\<lambda>opt s. opt s) opts (default_Server st rc))"
  "lis (NewServer st rc opts) = lis (fold (\<lambda>opt s. opt s) opts (default_Server st rc))"
  by (simp_all add: NewServer_def Let_def)

text \<open>
  C5. Options are applied in the order given and the last one to touch a field wins:
  for a list of calls of the five named options, every configuration field of the built
  server equals the value of the last call that touches it, or the default when none
  does; and whatever options come first, \<open>Address(":0")\<close> followed by
  \<open>Address(":9000")\<close> leaves the address \<open>:9000\<close>.
\<close>

theorem options_last_wins:
  "network (NewServer st rc (map option_of cs)) = last_wins touches_network ''tcp'' cs
   \<and> address (NewServer st rc (map option_of cs)) = last_wins touches_address '':0'' cs
   \<and> timeout (NewServer st rc (map option_of cs)) = last_wins touches_timeout Second cs
   \<and> middleware (NewServer st rc (map option_of cs))
       = last_wins touches_middleware (Some (Chain [st, rc])) cs
   \<and> grpcOpts (NewServer st rc (map option_of cs)) = last_wins touches_grpcOpts [] cs
   \<and> address (NewServer st rc (opts @ [Address '':0'', Address '':9000''])) = '':9000''"
  by (simp add: NewServer_fields fold_network fold_address fold_timeout fold_middleware
        fold_grpcOpts default_Server_def Address_def)

text \<open>
  C2. \<open>NewServer\<close> with no option yields the documented defaults: network
  \<open>tcp\<close>, address \<open>:0\<close>, a timeout of one second (10^9 nanoseconds), and as
  middleware the chain of status translation followed by panic recovery, status
  translation outermost.
\<close>

theorem NewServer_defaults:
  "network (NewServer st rc []) = ''tcp''
   \<and> address (NewServer st rc []) = '':0''
   \<and> timeout (NewServer st rc []) = Second
   \<and> sint (timeout (NewServer st rc [])) = 1000000000
   \<and> middleware (NewServer st rc []) = Some (Chain [st, rc])
   \<and> Chain [st, rc] h = st (rc h)
   \<and> grpcOpts (NewServer st rc []) = []
   \<and> lis (NewServer st rc []) = None"
  by (simp add: NewServer_fields default_Server_def Chain_def Second_def)

lemma fold_invariant:
  "list_all well_formed cs \<Longrightarrow> ServerConfig_invariant s
     \<Longrightarrow> ServerConfig_invariant (fold (\<lambda>opt s. opt s) (map option_of cs) s)"
proof (induction cs arbitrary: s)
  case Nil
  then show ?case by simp
next
  case (Cons c cs)
  from Cons.prems have wf: "well_formed c" and rest: "list_all well_formed cs"
    by simp_all
  from wf Cons.prems(2) have "ServerConfig_invariant (option_of c s)"
    by (cases c)
       (simp_all add: ServerConfig_invariant_def Network_def Address_def Timeout_def
          Middleware_def Options_def)
  with rest show ?case by (simp add: Cons.IH)
qed

lemma default_invariant: "ServerConfig_invariant (default_Server st rc)"
  by (simp add: ServerConfig_invariant_def default_Server_def Second_def)

text \<open>
  C7, as stated, fails: the options store what they are given, so \<open>Timeout(0)\<close>
  leaves a server whose timeout is not above zero.
\<close>

theorem invariant_unvalidated_counterexample:
  "\<not> ServerConfig_invariant (NewServer id id [Timeout 0] :: string Server)"
  by (simp add: ServerConfig_invariant_def NewServer_fields Timeout_def)

text \<open>
  C7, amended. After construction the configuration satisfies the ServerConfig
  invariant (timeout above zero, network and address non-empty) for every list of named
  options in which each \<open>Timeout\<close> carries a duration above zero and each \<open>Network\<close>
  and \<open>Address\<close> a non-empty string; the empty list is one such.
\<close>

theorem invariant_of_well_formed_options:
  "list_all well_formed cs \<Longrightarrow> ServerConfig_invariant (NewServer st rc (map option_of cs))"
  using fold_invariant [of cs "default_Server st rc"] default_invariant [of st rc]
  by (simp add: ServerConfig_invariant_def NewServer_fields)

theorem invariant_of_well_formed_options_witness:
  "list_all well_formed
     [Timeout_call (50 * Millisecond), Address_call '':9000'' :: string option_call]
   \<and> ServerConfig_invariant
        (NewServer id id
           (map option_of [Timeout_call (50 * Millisecond), Address_call '':9000''])
           :: string Server)"
  using invariant_of_well_formed_options
    [of "[Timeout_call (50 * Millisecond), Address_call '':9000'' :: string option_call]" id id]
  by (simp add: Millisecond_def)

subsection \<open>The timeout interceptor\<close>

lemma WithTimeout_deadline:
  "deadline (fst (fst (context_WithTimeout ctx D w)))
     = Some (case deadline ctx of None \<Rightarrow> clock w + sint D
             | Some cur \<Rightarrow> min cur (clock w + sint D))"
  by (simp add: context_WithTimeout_def context_WithDeadline_def Let_def min_def
        split: option.splits)

lemma WithTimeout_values:
  "transport_value (fst (fst (context_WithTimeout ctx D w))) = transport_value ctx"
  "serverInfo_value (fst (fst (context_WithTimeout ctx D w))) = serverInfo_value ctx"
  by (simp_all add: context_WithTimeout_def context_WithDeadline_def Let_def
        split: option.splits)

lemma WithTimeout_registers:
  "snd (fst (context_WithTimeout ctx D w)) \<in> set (pending (snd (context_WithTimeout ctx D w)))"
  by (simp add: context_WithTimeout_def context_WithDeadline_def Let_def
        split: option.splits)

lemma UnaryTimeoutInterceptor_eq:
  "UnaryTimeoutInterceptor D ctx req info handler w
     = (fst (handler (fst (fst (context_WithTimeout ctx D w))) req
               (snd (context_WithTimeout ctx D w))),
        cancel (snd (fst (context_WithTimeout ctx D w)))
          (snd (handler (fst (fst (context_WithTimeout ctx D w))) req
                  (snd (context_WithTimeout ctx D w)))))"
proof -
  obtain ctx' c w1 where wt: "context_WithTimeout ctx D w = ((ctx', c), w1)"
    by (metis prod.exhaust)
  obtain out w2 where h: "handler ctx' req w1 = (out, w2)"
    by (metis prod.exhaust)
  show ?thesis
    by (cases out) (auto simp add: UnaryTimeoutInterceptor_def wt h)
qed

lemma cancel_releases: "c \<notin> set (pending (cancel c w))"
  by (simp add: cancel_def)

text \<open>
  C3. For every incoming context, duration \<open>D\<close> and next handler, the timeout
  interceptor calls the handler with a derived context \<open>ctx'\<close> whose deadline is
  \<open>now + D\<close>, or the incoming deadline when that is sooner, and which carries the
  incoming values. Its result is the handler's own exit, a return with or without error
  or a panic alike, and its final world is the handler's with \<open>cancel\<close> applied: the
  derived context, registered when the handler starts, is released when the
  interceptor exits.
\<close>

theorem timeout_interceptor_bounds_and_releases:
  "\<exists>ctx' c w1.
     context_WithTimeout ctx D w = ((ctx', c), w1)
     \<and> deadline ctx' = Some (case deadline ctx of None \<Rightarrow> clock w + sint D
                             | Some cur \<Rightarrow> min cur (clock w + sint D))
     \<and> transport_value ctx' = transport_value ctx
     \<and> serverInfo_value ctx' = serverInfo_value ctx
     \<and> UnaryTimeoutInterceptor D ctx req info handler w
         = (fst (handler ctx' req w1), cancel c (snd (handler ctx' req w1)))
     \<and> c \<in> set (pending w1)
     \<and> c \<notin> set (pending (snd (UnaryTimeoutInterceptor D ctx req info handler w)))"
proof -
  obtain ctx' c w1 where wt: "context_WithTimeout ctx D w = ((ctx', c), w1)"
    by (metis prod.exhaust)
  have d: "deadline ctx' = Some (case deadline ctx of None \<Rightarrow> clock w + sint D
                                 | Some cur \<Rightarrow> min cur (clock w + sint D))"
    using WithTimeout_deadline [of ctx D w] by (simp add: wt)
  have v: "transport_value ctx' = transport_value ctx"
    "serverInfo_value ctx' = serverInfo_value ctx"
    using WithTimeout_values [of ctx D w] by (simp_all add: wt)
  have r: "c \<in> set (pending w1)"
    using WithTimeout_registers [of ctx D w] by (simp add: wt)
  have e: "UnaryTimeoutInterceptor D ctx req info handler w
             = (fst (handler ctx' req w1), cancel c (snd (handler ctx' req w1)))"
    using UnaryTimeoutInterceptor_eq [of D ctx req info handler w] by (simp add: wt)
  have "c \<notin> set (pending (snd (UnaryTimeoutInterceptor D ctx req info handler w)))"
    by (simp add: e cancel_releases)
  with wt d v r e show ?thesis by blast
qed

subsection \<open>The enriching interceptor and the order of dispatch\<close>

lemma NewServer_grpc_Server:
  "grpc_Server (NewServer st rc opts)
     = Some (grpc_NewServer
               (ChainUnaryInterceptor
                  [UnaryServerInterceptor (middleware (NewServer st rc opts)),
                   UnaryTimeoutInterceptor (timeout (NewServer st rc opts))]
                # grpcOpts (NewServer st rc opts)))"
  by (simp add: NewServer_def Let_def)

lemma chainUnaryInterceptors_append:
  "chainUnaryInterceptors (xs @ ys) ctx req info handler
     = chainUnaryInterceptors xs ctx req info
         (\<lambda>c r. chainUnaryInterceptors ys c r info handler)"
  by (induction xs arbitrary: ctx req) simp_all

lemma single_in_front:
  "(case (case xs of [] \<Rightarrow> None | u # _ \<Rightarrow> Some u) of Some u \<Rightarrow> [u] | None \<Rightarrow> [])
     = (case xs of [] \<Rightarrow> [] | u # _ \<Rightarrow> [u])"
  by (cases xs) simp_all

lemma handleCall_NewServer:
  "handleCall (NewServer st rc opts) ctx req info handler w
     = chainUnaryInterceptors
         ((case concat (map singleInt_of (grpcOpts (NewServer st rc opts))) of
             [] \<Rightarrow> [] | u # _ \<Rightarrow> [u])
          @ UnaryServerInterceptor (middleware (NewServer st rc opts))
          # UnaryTimeoutInterceptor (timeout (NewServer st rc opts))
          # concat (map unaryInts_of (grpcOpts (NewServer st rc opts))))
         ctx req info handler w"
  by (simp add: handleCall_def NewServer_grpc_Server grpc_handleUnary_def grpc_NewServer_def
        single_in_front)

lemma at_most_one_single:
  "length xs \<le> 1 \<Longrightarrow> (case xs of [] \<Rightarrow> [] | u # _ \<Rightarrow> [u]) = xs"
  by (cases xs) simp_all

lemma UnaryServerInterceptor_fun:
  "UnaryServerInterceptor m ctx req info handler
     = (case m of None \<Rightarrow> handler | Some mw \<Rightarrow> mw handler)
         (NewContext (transport_NewContext ctx \<lparr>Kind = ''GRPC''\<rparr>)
            \<lparr>Server = info_Server info, FullMethod = info_FullMethod info\<rparr>) req"
  by (simp add: UnaryServerInterceptor_def Let_def split: option.splits)

lemma UnaryServerInterceptor_eq:
  "UnaryServerInterceptor m ctx req info handler w
     = (case m of None \<Rightarrow> handler | Some mw \<Rightarrow> mw handler)
         (NewContext (transport_NewContext ctx \<lparr>Kind = ''GRPC''\<rparr>)
            \<lparr>Server = info_Server info, FullMethod = info_FullMethod info\<rparr>) req w"
  by (simp add: UnaryServerInterceptor_fun)

lemma enriched_reads:
  "transport_FromContext
     (NewContext (transport_NewContext ctx \<lparr>Kind = ''GRPC''\<rparr>)
        \<lparr>Server = info_Server info, FullMethod = info_FullMethod info\<rparr>)
     = Some \<lparr>Kind = ''GRPC''\<rparr>"
  "FromContext
     (NewContext (transport_NewContext ctx \<lparr>Kind = ''GRPC''\<rparr>)
        \<lparr>Server = info_Server info, FullMethod = info_FullMethod info\<rparr>)
     = Some \<lparr>Server = info_Server info, FullMethod = info_FullMethod info\<rparr>"
  "deadline
     (NewContext (transport_NewContext ctx \<lparr>Kind = ''GRPC''\<rparr>)
        \<lparr>Server = info_Server info, FullMethod = info_FullMethod info\<rparr>)
     = deadline ctx"
  by (simp_all add: transport_FromContext_def FromContext_def NewContext_def
        transport_NewContext_def)

text \<open>
  C1, as stated, fails: on a server built with an instrumented middleware, a call
  arriving without a deadline reaches the middleware still without one; only the
  terminal handler sees the deadline.
\<close>

theorem middleware_before_timeout_counterexample:
  "logged (snd (handleCall (NewServer id id [Middleware (Some probe_middleware)])
                  background ''ping''
                  \<lparr>info_Server = ''svc'', info_FullMethod = ''/svc/Ping''\<rparr>
                  probe_handler world0))
     = [''middleware: no deadline'', ''handler: deadline'']"
  by (simp add: handleCall_NewServer NewServer_fields Middleware_def default_Server_def
        UnaryServerInterceptor_eq probe_middleware_def probe_handler_def
        UnaryTimeoutInterceptor_eq cancel_def logger_Info_def deadline_note_def
        background_def world0_def NewContext_def transport_NewContext_def
        context_WithTimeout_def context_WithDeadline_def Let_def)

text \<open>
  C1, amended. On a built server whose transport options set the single interceptor at
  most once, every inbound call runs in this order: the caller's single transport
  interceptor, when there is one, on the context the call arrives with; then the
  enricher, which stamps the context it is handed; then the middleware chain, under the
  enriched context, whose deadline is still the one handed to the enricher; and only
  inside the chain the timeout interceptor, which bounds the context around the
  transport options' own chained interceptors and the terminal handler.
\<close>

theorem dispatch_order:
  assumes "length (concat (map singleInt_of (grpcOpts (NewServer st rc opts)))) \<le> 1"
  shows "handleCall (NewServer st rc opts) ctx req info handler w
     = chainUnaryInterceptors
         (concat (map singleInt_of (grpcOpts (NewServer st rc opts)))) ctx req info
         (\<lambda>c r.
            (case middleware (NewServer st rc opts) of
               None \<Rightarrow>
                 (\<lambda>c1 r1. UnaryTimeoutInterceptor (timeout (NewServer st rc opts)) c1 r1 info
                    (\<lambda>c2 r2. chainUnaryInterceptors
                                (concat (map unaryInts_of (grpcOpts (NewServer st rc opts))))
                                c2 r2 info handler))
             | Some mw \<Rightarrow>
                 mw (\<lambda>c1 r1. UnaryTimeoutInterceptor (timeout (NewServer st rc opts)) c1 r1 info
                       (\<lambda>c2 r2. chainUnaryInterceptors
                                   (concat (map unaryInts_of (grpcOpts (NewServer st rc opts))))
                                   c2 r2 info handler)))
              (NewContext (transport_NewContext c \<lparr>Kind = ''GRPC''\<rparr>)
                 \<lparr>Server = info_Server info, FullMethod = info_FullMethod info\<rparr>) r) w
   \<and> deadline (NewContext (transport_NewContext c0 \<lparr>Kind = ''GRPC''\<rparr>)
                 \<lparr>Server = info_Server info, FullMethod = info_FullMethod info\<rparr>)
       = deadline c0"
  by (simp add: handleCall_NewServer at_most_one_single [OF assms]
        chainUnaryInterceptors_append UnaryServerInterceptor_fun enriched_reads)

theorem dispatch_order_witness:
  "length (concat (map singleInt_of
             (grpcOpts (NewServer id id
                          [Options [UnaryInterceptor probe_interceptor],
                           Middleware (Some probe_middleware)] :: string Server)))) \<le> 1
   \<and> logged (snd (handleCall
                    (NewServer id id
                       [Options [UnaryInterceptor probe_interceptor],
                        Middleware (Some probe_middleware)])
                    background ''ping''
                    \<lparr>info_Server = ''svc'', info_FullMethod = ''/svc/Ping''\<rparr>
                    probe_handler world0))
       = [''interceptor: no deadline'', ''middleware: no deadline'', ''handler: deadline'']"
proof -
  have one: "length (concat (map singleInt_of
               (grpcOpts (NewServer id id
                            [Options [UnaryInterceptor probe_interceptor],
                             Middleware (Some probe_middleware)] :: string Server)))) \<le> 1"
    by (simp add: NewServer_fields Options_def Middleware_def default_Server_def)
  show ?thesis
    using one
      dispatch_order [OF one, of background "''ping''"
        "\<lparr>info_Server = ''svc'', info_FullMethod = ''/svc/Ping''\<rparr>" probe_handler world0]
    by (simp add: NewServer_fields Options_def Middleware_def default_Server_def
          probe_middleware_def probe_interceptor_def probe_handler_def
          UnaryTimeoutInterceptor_eq cancel_def logger_Info_def deadline_note_def
          background_def world0_def NewContext_def transport_NewContext_def
          context_WithTimeout_def context_WithDeadline_def Let_def)
qed

text \<open>
  C4. Whenever the enriching interceptor handles a call, it calls the handler, wrapped
  in the middleware when there is one, with the context it was handed augmented by the
  transport-kind tag \<open>GRPC\<close> and by the CallInfo made of the call's target server
  object and full method name: the middleware chain and the terminal handler run under
  that context, and both values are read back by the accessors.
\<close>

theorem enricher_stamps_context:
  "UnaryServerInterceptor m ctx req info next_handler w
       = (case m of None \<Rightarrow> next_handler | Some mw \<Rightarrow> mw next_handler)
           (NewContext (transport_NewContext ctx \<lparr>Kind = ''GRPC''\<rparr>)
              \<lparr>Server = info_Server info, FullMethod = info_FullMethod info\<rparr>) req w
   \<and> transport_FromContext
         (NewContext (transport_NewContext ctx \<lparr>Kind = ''GRPC''\<rparr>)
            \<lparr>Server = info_Server info, FullMethod = info_FullMethod info\<rparr>)
       = Some \<lparr>Kind = ''GRPC''\<rparr>
   \<and> FromContext
         (NewContext (transport_NewContext ctx \<lparr>Kind = ''GRPC''\<rparr>)
            \<lparr>Server = info_Server info, FullMethod = info_FullMethod info\<rparr>)
       = Some \<lparr>Server = info_Server info, FullMethod = info_FullMethod info\<rparr>"
  by (simp add: UnaryServerInterceptor_eq enriched_reads)

text \<open>
  C10. With a \<open>nil\<close> middleware the enriching interceptor skips the wrapping: it calls
  the terminal handler directly with the enriched context and its result is the
  handler's, so it panics exactly when the handler does. The \<open>Middleware\<close> option
  given \<open>nil\<close> last leaves the server in that case.
\<close>

theorem nil_middleware_calls_handler:
  "UnaryServerInterceptor None ctx req info handler w
     = handler (NewContext (transport_NewContext ctx \<lparr>Kind = ''GRPC''\<rparr>)
                  \<lparr>Server = info_Server info, FullMethod = info_FullMethod info\<rparr>) req w
   \<and> is_panic (fst (UnaryServerInterceptor None ctx req info handler w))
       = is_panic (fst (handler
                          (NewContext (transport_NewContext ctx \<lparr>Kind = ''GRPC''\<rparr>)
                             \<lparr>Server = info_Server info, FullMethod = info_FullMethod info\<rparr>)
                          req w))
   \<and> middleware (NewServer st rc (opts @ [Middleware None])) = None"
  by (simp add: UnaryServerInterceptor_eq NewServer_fields Middleware_def)

subsection \<open>Lifecycle and endpoint\<close>

text \<open>
  C6. When binding the listening socket fails, \<open>Start\<close> returns that error at once and
  leaves the server as it was: no listener is stored, nothing is logged beyond what the
  failed bind left, and the transport's \<open>Serve\<close> has no part in the result.
\<close>

theorem Start_bind_failure:
  assumes "net_Listen (network s) (address s) w = (Inl err, w1)"
  shows "Start net_Listen Serve s w = ((Returns (Some err), s), w1)
         \<and> lis (snd (fst (Start net_Listen Serve s w))) = lis s
         \<and> logged (snd (Start net_Listen Serve s w)) = logged w1"
  using assms by (simp add: Start_def)

theorem Start_bind_failure_witness:
  "busy_Listen (network (NewServer id id [] :: string Server))
       (address (NewServer id id [] :: string Server)) world0
     = (Inl ''bind: address already in use'', world0)
   \<and> Start busy_Listen noisy_Serve (NewServer id id [] :: string Server) world0
       = ((Returns (Some ''bind: address already in use''), NewServer id id []), world0)
   \<and> lis (snd (fst (Start busy_Listen noisy_Serve (NewServer id id [] :: string Server) world0)))
       = None
   \<and> logged (snd (Start busy_Listen noisy_Serve (NewServer id id [] :: string Server) world0))
       = []"
  using Start_bind_failure
    [of busy_Listen "NewServer id id [] :: string Server" world0
        "''bind: address already in use''" world0 noisy_Serve]
  by (simp add: busy_Listen_def NewServer_fields default_Server_def world0_def)

text \<open>
  C8, as stated, fails: on the default server, whose address \<open>:0\<close> names no host and
  whose socket is unbound, a resolver that finds no host and reports the empty address
  without an error makes \<open>Endpoint\<close> return \<open>grpc://\<close> and \<open>nil\<close>: no error, and no
  URI of the form \<open>grpc://<host>:<port>\<close> either.
\<close>

theorem Endpoint_unresolved_counterexample:
  "address (NewServer id id [] :: string Server) = '':0''
   \<and> lis (NewServer id id [] :: string Server) = None
   \<and> Endpoint Extract_unresolved (NewServer id id [] :: string Server) = (''grpc://'', None)
   \<and> \<not> endpoint_form ''grpc://''"
  by (simp add: Endpoint_def Extract_unresolved_def NewServer_fields default_Server_def
        endpoint_form_def host_port_form_def)

text \<open>
  C8, amended. \<open>Endpoint\<close> decides on the resolver's error alone. When the resolver
  reports none, \<open>Endpoint\<close> returns \<open>grpc://\<close> followed by the resolved address, and no
  error; the result has the form \<open>grpc://<host>:<port>\<close> exactly when the resolved
  address has the form \<open><host>:<port>\<close>, which \<open>Endpoint\<close> does not check. When the
  resolver reports an error, \<open>Endpoint\<close> returns the empty string together with that
  error, never a URI.
\<close>

theorem Endpoint_uri_or_error:
  "(host_Extract (address s) (lis s) = (addr, None)
      \<longrightarrow> Endpoint host_Extract s = (''grpc://'' @ addr, None)
          \<and> endpoint_form (fst (Endpoint host_Extract s)) = host_port_form addr)
   \<and> (host_Extract (address s) (lis s) = (addr, Some err)
      \<longrightarrow> Endpoint host_Extract s = ('''', Some err)
          \<and> \<not> endpoint_form (fst (Endpoint host_Extract s)))"
  by (simp add: Endpoint_def endpoint_form_def)

theorem Endpoint_uri_or_error_witness:
  "Extract_port (address (NewServer id id [Address ''127.0.0.1:9000''] :: string Server))
       (lis (NewServer id id [Address ''127.0.0.1:9000''] :: string Server))
     = (''127.0.0.1:9000'', None)
   \<and> Endpoint Extract_port (NewServer id id [Address ''127.0.0.1:9000''] :: string Server)
       = (''grpc://127.0.0.1:9000'', None)
   \<and> endpoint_form ''grpc://127.0.0.1:9000''
   \<and> Extract_port (address (NewServer id id [Address ''localhost''] :: string Server))
       (lis (NewServer id id [Address ''localhost''] :: string Server))
     = ('''', Some ''missing port in address'')
   \<and> Endpoint Extract_port (NewServer id id [Address ''localhost''] :: string Server)
       = ('''', Some ''missing port in address'')"
proof -
  let ?ok = "NewServer id id [Address ''127.0.0.1:9000''] :: string Server"
  let ?bad = "NewServer id id [Address ''localhost''] :: string Server"
  have r1: "Extract_port (address ?ok) (lis ?ok) = (''127.0.0.1:9000'', None)"
    by (simp add: Extract_port_def NewServer_fields Address_def default_Server_def)
  have r2: "Extract_port (address ?bad) (lis ?bad) = ('''', Some ''missing port in address'')"
    by (simp add: Extract_port_def NewServer_fields Address_def default_Server_def)
  have hp: "host_port_form ''127.0.0.1:9000''"
    by (simp add: host_port_form_def)
  from r1 Endpoint_uri_or_error [of Extract_port ?ok "''127.0.0.1:9000''"]
  have both:
    "Endpoint Extract_port ?ok = (''grpc://'' @ ''127.0.0.1:9000'', None)
     \<and> endpoint_form (fst (Endpoint Extract_port ?ok)) = host_port_form ''127.0.0.1:9000''"
    by blast
  from both have e1: "Endpoint Extract_port ?ok = (''grpc://127.0.0.1:9000'', None)"
    by simp
  from both have f1:
    "endpoint_form (fst (Endpoint Extract_port ?ok)) = host_port_form ''127.0.0.1:9000''"
    by blast
  from r2 Endpoint_uri_or_error [of Extract_port ?bad "''''" "''missing port in address''"]
  have e2: "Endpoint Extract_port ?bad = ('''', Some ''missing port in address'')"
    by blast
  from f1 hp have "endpoint_form ''grpc://127.0.0.1:9000''"
    by (simp add: e1)
  with r1 r2 e1 e2 show ?thesis by simp
qed



end
